theory Spec2Isabelle
  imports Complex_Main "HOL-Library.Multiset"
begin

section \<open>Python values, numpy arrays and errors\<close>

text \<open>
  The module \<^verbatim>\<open>madmom/ml/nn/__init__.py\<close> works on dynamically typed Python
  values. The values that occur are numpy arrays, tuples, lists and \<^verbatim>\<open>None\<close>
  (as the example of a value that is neither numeric nor iterable). An exception
  is a value of type \<open>error\<close>; a function that may raise returns \<open>error + 'a\<close>.
\<close>

datatype error =
    IndexError
  | TypeError
  | AttributeError
  | ValueError
  | ZeroDivisionError
  | Raised string

text \<open>
  A numpy array is its shape and its elements in row-major order. The element
  type \<open>'a\<close> is the array's dtype. A numpy scalar (the result of arithmetic on
  0-dimensional arrays) is not distinguished from a 0-dimensional array.
\<close>

datatype 'a ndarray = NDArray (shape: "nat list") (elems: "'a list")

datatype 'a pyval =
    Arr "'a ndarray"
  | Tup "'a pyval list"
  | Lst "'a pyval list"
  | NoneV

definition ndim :: "'a ndarray \<Rightarrow> nat" where
  "ndim a = length (shape a)"

definition wf_ndarray :: "'a ndarray \<Rightarrow> bool" where
  "wf_ndarray a = (length (elems a) = prod_list (shape a))"

text \<open>\<^verbatim>\<open>a.squeeze()\<close>: the axes of size 1 are dropped, the elements stay.\<close>

definition squeeze :: "'a ndarray \<Rightarrow> 'a ndarray" where
  "squeeze a = NDArray (filter (\<lambda>d. d \<noteq> 1) (shape a)) (elems a)"

text \<open>
  \<^verbatim>\<open>np.array(a, subok=True, copy=False, ndmin=2)\<close>: axes of size 1 are prepended
  until the array has 2 dimensions.
\<close>

definition array_ndmin2 :: "'a ndarray \<Rightarrow> 'a ndarray" where
  "array_ndmin2 a = NDArray (replicate (2 - ndim a) 1 @ shape a) (elems a)"

text \<open>
  \<^verbatim>\<open>x.squeeze()\<close> on a Python value: tuples, lists and \<^verbatim>\<open>None\<close> have no
  attribute \<^verbatim>\<open>squeeze\<close>.
\<close>

fun py_squeeze :: "'a pyval \<Rightarrow> error + 'a pyval" where
  "py_squeeze (Arr a) = Inr (Arr (squeeze a))"
| "py_squeeze (Tup xs) = Inl AttributeError"
| "py_squeeze (Lst xs) = Inl AttributeError"
| "py_squeeze NoneV = Inl AttributeError"

text \<open>
  Iterating a Python value: a tuple or list gives its items, an array gives its
  sub-arrays along the first axis (a 0-dimensional array cannot be iterated),
  \<^verbatim>\<open>None\<close> is not iterable.
\<close>

fun py_iter :: "'a pyval \<Rightarrow> error + 'a pyval list" where
  "py_iter (Tup xs) = Inr xs"
| "py_iter (Lst xs) = Inr xs"
| "py_iter (Arr a) =
     (case shape a of
        [] \<Rightarrow> Inl TypeError
      | n # rest \<Rightarrow>
          Inr (map (\<lambda>i. Arr (NDArray rest
                    (take (prod_list rest) (drop (i * prod_list rest) (elems a)))))
                 [0..<n]))"
| "py_iter NoneV = Inl TypeError"

fun isinstance_tuple :: "'a pyval \<Rightarrow> bool" where
  "isinstance_tuple (Tup xs) = True"
| "isinstance_tuple _ = False"

section \<open>Array arithmetic\<close>

text \<open>
  The arithmetic of the array elements belongs to numpy and to the dtype, not to
  this module, so it is a parameter: \<open>elem_add x y\<close> is \<^verbatim>\<open>x + y\<close> on two
  elements, \<open>elem_radd_int i y\<close> is \<^verbatim>\<open>i + y\<close> for a Python int \<open>i\<close>
  (the start value \<^verbatim>\<open>0\<close> of \<^verbatim>\<open>sum\<close>), and \<open>elem_div_int x n\<close> is the true
  division \<^verbatim>\<open>x / n\<close> by a Python int (the \<^verbatim>\<open>len\<close> of the list). What numpy
  makes of \<^verbatim>\<open>array + v\<close> where \<open>v\<close> is no array (it tries to coerce
  \<open>v\<close> to an array first) is the parameter \<open>coerce_add\<close>.
\<close>

record 'a numpy =
  elem_add :: "'a \<Rightarrow> 'a \<Rightarrow> 'a"
  elem_radd_int :: "int \<Rightarrow> 'a \<Rightarrow> 'a"
  elem_div_int :: "'a \<Rightarrow> int \<Rightarrow> 'a"
  coerce_add :: "'a ndarray \<Rightarrow> 'a pyval \<Rightarrow> error + 'a ndarray"

text \<open>
  Broadcasting: the shapes are aligned at their last axis, the shorter one is
  padded with axes of size 1 on the left, and two axes are compatible when they
  are equal or one of them is 1.
\<close>

definition pad_shape :: "nat \<Rightarrow> nat list \<Rightarrow> nat list" where
  "pad_shape n s = replicate (n - length s) 1 @ s"

definition broadcast_shapes :: "nat list \<Rightarrow> nat list \<Rightarrow> nat list option" where
  "broadcast_shapes s t =
     (let n = max (length s) (length t);
          s' = pad_shape n s;
          t' = pad_shape n t
      in if list_all2 (\<lambda>x y. x = y \<or> x = 1 \<or> y = 1) s' t'
         then Some (map2 (\<lambda>x y. if x = 1 then y else x) s' t')
         else None)"

text \<open>
  \<open>broadcast_to s t xs\<close>: the elements \<open>xs\<close> of an array of shape \<open>s\<close>,
  repeated along every axis where \<open>s\<close> has size 1 and the target \<open>t\<close> has not.
\<close>

fun broadcast_to :: "nat list \<Rightarrow> nat list \<Rightarrow> 'a list \<Rightarrow> 'a list" where
  "broadcast_to (s # ss) (t # ts) xs =
     (let n = prod_list ss;
          rows = map (\<lambda>i. broadcast_to ss ts (take n (drop (i * n) xs))) [0..<s]
      in if s = t then concat rows else concat (replicate t (concat rows)))"
| "broadcast_to _ _ xs = xs"

text \<open>
  \<^verbatim>\<open>a + b\<close> on two arrays. Arrays of equal shape are added element by
  element; otherwise both are broadcast to the common shape, and shapes that
  cannot be broadcast raise \<^verbatim>\<open>ValueError\<close>.
\<close>

definition array_add :: "'a numpy \<Rightarrow> 'a ndarray \<Rightarrow> 'a ndarray \<Rightarrow> error + 'a ndarray" where
  "array_add np a b =
     (if shape a = shape b
      then Inr (NDArray (shape a) (map2 (elem_add np) (elems a) (elems b)))
      else (case broadcast_shapes (shape a) (shape b) of
              None \<Rightarrow> Inl ValueError
            | Some t \<Rightarrow>
                Inr (NDArray t
                  (map2 (elem_add np)
                     (broadcast_to (pad_shape (length t) (shape a)) t (elems a))
                     (broadcast_to (pad_shape (length t) (shape b)) t (elems b))))))"

text \<open>\<^verbatim>\<open>acc + v\<close> where \<open>acc\<close> is an array.\<close>

fun ndarray_add :: "'a numpy \<Rightarrow> 'a ndarray \<Rightarrow> 'a pyval \<Rightarrow> error + 'a ndarray" where
  "ndarray_add np acc (Arr b) = array_add np acc b"
| "ndarray_add np acc v = coerce_add np acc v"

text \<open>
  \<^verbatim>\<open>0 + v\<close>, the first step of \<^verbatim>\<open>sum\<close>: an int and an array add element by
  element; an int and a tuple, a list or \<^verbatim>\<open>None\<close> raise \<^verbatim>\<open>TypeError\<close>.
\<close>

fun int_radd :: "'a numpy \<Rightarrow> int \<Rightarrow> 'a pyval \<Rightarrow> error + 'a ndarray" where
  "int_radd np i (Arr a) = Inr (NDArray (shape a) (map (elem_radd_int np i) (elems a)))"
| "int_radd np i v = Inl TypeError"

text \<open>\<^verbatim>\<open>a / n\<close> for an array and a Python int.\<close>

definition array_div_int :: "'a numpy \<Rightarrow> 'a ndarray \<Rightarrow> int \<Rightarrow> 'a ndarray" where
  "array_div_int np a n = NDArray (shape a) (map (\<lambda>x. elem_div_int np x n) (elems a))"

text \<open>
  The loop of the builtin \<^verbatim>\<open>sum\<close> after its first step: \<^verbatim>\<open>acc = acc + v\<close> for
  each further item, stopping at the first exception.
\<close>

fun sum_from :: "'a numpy \<Rightarrow> 'a ndarray \<Rightarrow> 'a pyval list \<Rightarrow> error + 'a ndarray" where
  "sum_from np acc [] = Inr acc"
| "sum_from np acc (v # vs) =
     (case ndarray_add np acc v of
        Inl e \<Rightarrow> Inl e
      | Inr acc' \<Rightarrow> sum_from np acc' vs)"

section \<open>average\_predictions\<close>

text \<open>
  The inner function \<^verbatim>\<open>avg(pred)\<close> is \<^verbatim>\<open>sum(pred) / len(pred)\<close>. The sum of
  an empty sequence is the int \<^verbatim>\<open>0\<close>, and \<^verbatim>\<open>0 / 0\<close> raises.
\<close>

fun avg :: "'a numpy \<Rightarrow> 'a pyval list \<Rightarrow> error + 'a pyval" where
  "avg np [] = Inl ZeroDivisionError"
| "avg np (v # vs) =
     (case int_radd np 0 v of
        Inl e \<Rightarrow> Inl e
      | Inr acc \<Rightarrow>
          (case sum_from np acc vs of
             Inl e \<Rightarrow> Inl e
           | Inr s \<Rightarrow> Inr (Arr (array_div_int np s (int (length (v # vs)))))))"

text \<open>
  \<^verbatim>\<open>list(zip(*predictions))\<close>: every prediction is iterated, and the groups
  stop at the shortest one.
\<close>

fun iter_all :: "'a pyval list \<Rightarrow> error + 'a pyval list list" where
  "iter_all [] = Inr []"
| "iter_all (p # ps) =
     (case py_iter p of
        Inl e \<Rightarrow> Inl e
      | Inr xs \<Rightarrow>
          (case iter_all ps of
             Inl e \<Rightarrow> Inl e
           | Inr xss \<Rightarrow> Inr (xs # xss)))"

definition zip_lists :: "'b list list \<Rightarrow> 'b list list" where
  "zip_lists xss =
     (case xss of
        [] \<Rightarrow> []
      | xs # rest \<Rightarrow>
          map (\<lambda>i. map (\<lambda>ys. ys ! i) xss)
            [0..<foldr min (map length rest) (length xs)])"

definition zip_star :: "'a pyval list \<Rightarrow> error + 'a pyval list list" where
  "zip_star predictions =
     (case iter_all predictions of
        Inl e \<Rightarrow> Inl e
      | Inr xss \<Rightarrow> Inr (zip_lists xss))"

text \<open>The loop \<^verbatim>\<open>for pred in ...: avg_pred.append(avg(pred))\<close>.\<close>

fun avg_each :: "'a numpy \<Rightarrow> 'a pyval list list \<Rightarrow> error + 'a pyval list" where
  "avg_each np [] = Inr []"
| "avg_each np (pred # rest) =
     (case avg np pred of
        Inl e \<Rightarrow> Inl e
      | Inr a \<Rightarrow>
          (case avg_each np rest of
             Inl e \<Rightarrow> Inl e
           | Inr avg_pred \<Rightarrow> Inr (a # avg_pred)))"

text \<open>The branch for multi-task networks (lines 51 to 55 of the source).\<close>

definition avg_tuples :: "'a numpy \<Rightarrow> 'a pyval list \<Rightarrow> error + 'a pyval" where
  "avg_tuples np predictions =
     (case zip_star predictions of
        Inl e \<Rightarrow> Inl e
      | Inr groups \<Rightarrow>
          (case avg_each np groups of
             Inl e \<Rightarrow> Inl e
           | Inr avg_pred \<Rightarrow> Inr (Tup avg_pred)))"

definition average_predictions :: "'a numpy \<Rightarrow> 'a pyval list \<Rightarrow> error + 'a pyval" where
  "average_predictions np predictions =
     (if length predictions = 1 then Inr (hd predictions)
      else (case predictions of
              [] \<Rightarrow> Inl IndexError
            | first # _ \<Rightarrow>
                if isinstance_tuple first then avg_tuples np predictions
                else avg np predictions))"

section \<open>NeuralNetwork\<close>

text \<open>
  A layer is an object of another module: it is called as
  \<^verbatim>\<open>layer(data, reset=reset)\<close>, which may change the layer's internal state and
  may raise, and it has a method \<^verbatim>\<open>reset()\<close>. Both are functions of the state
  \<open>'s\<close> that the layer holds.
\<close>

record ('a, 's) layer =
  activate :: "'s \<Rightarrow> 'a pyval \<Rightarrow> bool \<Rightarrow> (error + 'a pyval) \<times> 's"
  reset_state :: "'s \<Rightarrow> error option \<times> 's"
  state :: 's

record ('a, 's) NeuralNetwork =
  layers :: "('a, 's) layer list"

text \<open>
  The loop \<^verbatim>\<open>for layer in self.layers: data = layer(data, reset=reset)\<close>. It
  returns the last output (or the exception that ended it) and the layers with
  their new states.
\<close>

fun run_layers ::
  "('a, 's) layer list \<Rightarrow> 'a pyval \<Rightarrow> bool \<Rightarrow> (error + 'a pyval) \<times> ('a, 's) layer list" where
  "run_layers [] data reset = (Inr data, [])"
| "run_layers (layer # rest) data reset =
     (case activate layer (state layer) data reset of
        (Inl e, s') \<Rightarrow> (Inl e, layer\<lparr>state := s'\<rparr> # rest)
      | (Inr out, s') \<Rightarrow>
          (case run_layers rest out reset of
             (r, rest') \<Rightarrow> (r, layer\<lparr>state := s'\<rparr> # rest')))"

text \<open>\<^verbatim>\<open>[d.squeeze() for d in data]\<close>, ended by the first exception.\<close>

fun squeeze_all :: "'a pyval list \<Rightarrow> error + 'a pyval list" where
  "squeeze_all [] = Inr []"
| "squeeze_all (d # ds) =
     (case py_squeeze d of
        Inl e \<Rightarrow> Inl e
      | Inr x \<Rightarrow>
          (case squeeze_all ds of
             Inl e \<Rightarrow> Inl e
           | Inr xs \<Rightarrow> Inr (x # xs)))"

text \<open>
  The \<^verbatim>\<open>try\<close> statement at the end of \<^verbatim>\<open>process\<close>: \<^verbatim>\<open>data.squeeze()\<close>, and
  on \<^verbatim>\<open>AttributeError\<close> the tuple of the squeezed items of \<^verbatim>\<open>data\<close>. An
  exception raised inside the handler is not caught.
\<close>

definition squeeze_predictions :: "'a pyval \<Rightarrow> error + 'a pyval" where
  "squeeze_predictions data =
     (case py_squeeze data of
        Inr v \<Rightarrow> Inr v
      | Inl e \<Rightarrow>
          if e = AttributeError
          then (case py_iter data of
                  Inl e' \<Rightarrow> Inl e'
                | Inr ds \<Rightarrow>
                    (case squeeze_all ds of
                       Inl e' \<Rightarrow> Inl e'
                     | Inr xs \<Rightarrow> Inr (Tup xs)))
          else Inl e)"

text \<open>
  \<^verbatim>\<open>if isinstance(data, np.ndarray) and data.ndim < 2: data = np.array(data, ..., ndmin=2)\<close>
\<close>

fun at_least_2d :: "'a pyval \<Rightarrow> 'a pyval" where
  "at_least_2d (Arr a) = (if ndim a < 2 then Arr (array_ndmin2 a) else Arr a)"
| "at_least_2d v = v"

text \<open>
  The rest of \<^verbatim>\<open>process\<close> (from the loop over the layers to the return): the
  data goes through the layers, and the last output is squeezed.
\<close>

definition feed_layers ::
  "('a, 's) NeuralNetwork \<Rightarrow> 'a pyval \<Rightarrow> bool \<Rightarrow> (error + 'a pyval) \<times> ('a, 's) NeuralNetwork" where
  "feed_layers nn data reset =
     (case run_layers (layers nn) data reset of
        (Inl e, ls) \<Rightarrow> (Inl e, nn\<lparr>layers := ls\<rparr>)
      | (Inr out, ls) \<Rightarrow> (squeeze_predictions out, nn\<lparr>layers := ls\<rparr>))"

definition NeuralNetwork_process ::
  "('a, 's) NeuralNetwork \<Rightarrow> 'a pyval \<Rightarrow> bool \<Rightarrow> (error + 'a pyval) \<times> ('a, 's) NeuralNetwork" where
  "NeuralNetwork_process nn data reset = feed_layers nn (at_least_2d data) reset"

text \<open>\<^verbatim>\<open>for layer in self.layers: layer.reset()\<close>\<close>

fun reset_layers :: "('a, 's) layer list \<Rightarrow> error option \<times> ('a, 's) layer list" where
  "reset_layers [] = (None, [])"
| "reset_layers (layer # rest) =
     (case reset_state layer (state layer) of
        (Some e, s') \<Rightarrow> (Some e, layer\<lparr>state := s'\<rparr> # rest)
      | (None, s') \<Rightarrow>
          (case reset_layers rest of
             (r, rest') \<Rightarrow> (r, layer\<lparr>state := s'\<rparr> # rest')))"

definition NeuralNetwork_reset :: "('a, 's) NeuralNetwork \<Rightarrow> error option \<times> ('a, 's) NeuralNetwork" where
  "NeuralNetwork_reset nn = (case reset_layers (layers nn) of (r, ls) \<Rightarrow> (r, nn\<lparr>layers := ls\<rparr>))"

section \<open>NeuralNetworkEnsemble\<close>

text \<open>
  An argument of a Python call that has a default value is either left out or
  passed.
\<close>

datatype 'b argument = Omitted | Passed 'b

record ('a, 's) ParallelProcessor =
  processors :: "('a, 's) NeuralNetwork list"
  num_threads :: "nat option"

record ('a, 's) NeuralNetworkEnsemble =
  networks_processor :: "('a, 's) ParallelProcessor"
  ensemble_fn :: "('a pyval list \<Rightarrow> error + 'a pyval) option"

text \<open>
  \<^verbatim>\<open>NeuralNetworkEnsemble.__init__(networks, ensemble_fn=average_predictions, num_threads=None)\<close>:
  the sequence of the parallel processor over the networks and the ensemble
  function. The average is taken with the arithmetic \<open>np\<close>.
\<close>

definition NeuralNetworkEnsemble_init ::
  "'a numpy \<Rightarrow> ('a, 's) NeuralNetwork list \<Rightarrow>
   ('a pyval list \<Rightarrow> error + 'a pyval) option argument \<Rightarrow> nat option argument \<Rightarrow>
   ('a, 's) NeuralNetworkEnsemble" where
  "NeuralNetworkEnsemble_init np networks ensemble_fn_arg num_threads_arg =
     \<lparr>networks_processor =
        \<lparr>processors = networks,
         num_threads = (case num_threads_arg of Omitted \<Rightarrow> None | Passed n \<Rightarrow> n)\<rparr>,
      ensemble_fn =
        (case ensemble_fn_arg of
           Omitted \<Rightarrow> Some (average_predictions np)
         | Passed f \<Rightarrow> f)\<rparr>"

text \<open>The results of a list of calls: the first exception, or all the values.\<close>

fun sequence_results :: "(error + 'b) list \<Rightarrow> error + 'b list" where
  "sequence_results [] = Inr []"
| "sequence_results (r # rs) =
     (case r of
        Inl e \<Rightarrow> Inl e
      | Inr x \<Rightarrow>
          (case sequence_results rs of
             Inl e \<Rightarrow> Inl e
           | Inr xs \<Rightarrow> Inr (x # xs)))"

text \<open>
  Modelled from the spec: \<^verbatim>\<open>ParallelProcessor.process\<close>, of the module
  \<^verbatim>\<open>madmom.processors\<close>, which is not among the sources. The spec describes a
  bounded parallel map: every member network is run on the same input with the
  same reset flag, each on its own state; the workers finish in an order that is
  not determined (the parameter \<open>completion\<close>, which rearranges the numbered
  tasks); the results are gathered in the order of the networks; the first
  raised error is propagated. The bound \<open>num_threads\<close> does not enter the result.
\<close>

definition ParallelProcessor_process ::
  "((nat \<times> ('a, 's) NeuralNetwork) list \<Rightarrow> (nat \<times> ('a, 's) NeuralNetwork) list) \<Rightarrow>
   ('a, 's) ParallelProcessor \<Rightarrow> 'a pyval \<Rightarrow> bool \<Rightarrow>
   (error + 'a pyval list) \<times> ('a, 's) ParallelProcessor" where
  "ParallelProcessor_process completion pp data reset =
     (let tasks = zip [0..<length (processors pp)] (processors pp);
          finished = map (\<lambda>(i, nn). (i, NeuralNetwork_process nn data reset)) (completion tasks);
          gathered = map snd (sort_key fst finished)
      in ((case sequence_results (map (\<lambda>(i, r, nn). r) finished) of
             Inl e \<Rightarrow> Inl e
           | Inr _ \<Rightarrow> sequence_results (map fst gathered)),
          pp\<lparr>processors := map snd gathered\<rparr>))"

text \<open>
  Modelled from the spec: \<^verbatim>\<open>SequentialProcessor.process\<close> as the ensemble
  inherits it, of the module \<^verbatim>\<open>madmom.processors\<close>, which is not among the
  sources. The ordered list of the networks' predictions is passed to the
  ensemble function, or returned as it is when the function is \<^verbatim>\<open>None\<close>.
\<close>

definition NeuralNetworkEnsemble_process ::
  "((nat \<times> ('a, 's) NeuralNetwork) list \<Rightarrow> (nat \<times> ('a, 's) NeuralNetwork) list) \<Rightarrow>
   ('a, 's) NeuralNetworkEnsemble \<Rightarrow> 'a pyval \<Rightarrow> bool \<Rightarrow>
   (error + 'a pyval) \<times> ('a, 's) NeuralNetworkEnsemble" where
  "NeuralNetworkEnsemble_process completion ens data reset =
     (case ParallelProcessor_process completion (networks_processor ens) data reset of
        (Inl e, pp) \<Rightarrow> (Inl e, ens\<lparr>networks_processor := pp\<rparr>)
      | (Inr predictions, pp) \<Rightarrow>
          ((case ensemble_fn ens of
              None \<Rightarrow> Inr (Lst predictions)
            | Some f \<Rightarrow> f predictions),
           ens\<lparr>networks_processor := pp\<rparr>))"

section \<open>Two arithmetics\<close>

text \<open>
  Exact arithmetic on the rationals: no rounding. It refuses to coerce a value
  that is no array.
\<close>

definition exact_arith :: "rat numpy" where
  "exact_arith =
     \<lparr>elem_add = (\<lambda>x y. x + y),
      elem_radd_int = (\<lambda>i y. of_int i + y),
      elem_div_int = (\<lambda>x n. x / of_int n),
      coerce_add = (\<lambda>a v. Inl TypeError)\<rparr>"

text \<open>
  The dtype \<^verbatim>\<open>float64\<close>: IEEE 754 binary64 with rounding to nearest, ties to
  even. A finite value is the rational number it stands for (the two zeros are
  not distinguished).
\<close>

datatype binary64 = Finite rat | PosInf | NegInf | NaN

text \<open>The number of binary digits of a positive integer.\<close>

function bit_length :: "int \<Rightarrow> int" where
  "bit_length n = (if n \<le> 0 then 0 else 1 + bit_length (n div 2))"
  by pat_completeness auto
termination
  by (relation "measure nat") auto

declare bit_length.simps [simp del]

definition pow2 :: "int \<Rightarrow> rat" where
  "pow2 e = (if 0 \<le> e then 2 ^ nat e else 1 / 2 ^ nat (- e))"

text \<open>For \<open>q > 0\<close>, the exponent \<open>e\<close> with \<open>2 ^ e \<le> q < 2 ^ (e + 1)\<close>.\<close>

definition floor_log2 :: "rat \<Rightarrow> int" where
  "floor_log2 q =
     (case quotient_of q of
        (a, b) \<Rightarrow>
          (let k = bit_length a - bit_length b
           in if pow2 k \<le> q then k else k - 1))"

definition round_half_even :: "rat \<Rightarrow> int" where
  "round_half_even q =
     (let f = \<lfloor>q\<rfloor>; d = q - of_int f
      in if d < 1 / 2 then f
         else if 1 / 2 < d then f + 1
         else if even f then f else f + 1)"

text \<open>
  Rounding a rational to binary64: 53 significant bits, the least exponent of
  the last bit is -1074 (subnormal numbers), and a rounded magnitude of
  \<open>2 ^ 1024\<close> or more overflows to an infinity.
\<close>

definition to_binary64 :: "rat \<Rightarrow> binary64" where
  "to_binary64 q =
     (if q = 0 then Finite 0
      else (let e = max (floor_log2 \<bar>q\<bar> - 52) (- 1074);
                r = of_int (round_half_even (q / pow2 e)) * pow2 e
            in if pow2 1024 \<le> \<bar>r\<bar> then (if 0 < q then PosInf else NegInf)
               else Finite r))"

fun binary64_add :: "binary64 \<Rightarrow> binary64 \<Rightarrow> binary64" where
  "binary64_add (Finite x) (Finite y) = to_binary64 (x + y)"
| "binary64_add NaN _ = NaN"
| "binary64_add _ NaN = NaN"
| "binary64_add PosInf NegInf = NaN"
| "binary64_add NegInf PosInf = NaN"
| "binary64_add PosInf _ = PosInf"
| "binary64_add _ PosInf = PosInf"
| "binary64_add NegInf _ = NegInf"
| "binary64_add _ NegInf = NegInf"

text \<open>
  \<^verbatim>\<open>x / n\<close> for a Python int \<open>n\<close>, which is converted to binary64 first
  (the int 0 becomes the positive zero).
\<close>

fun binary64_div_int :: "binary64 \<Rightarrow> int \<Rightarrow> binary64" where
  "binary64_div_int NaN n = NaN"
| "binary64_div_int PosInf n = (if 0 \<le> n then PosInf else NegInf)"
| "binary64_div_int NegInf n = (if 0 \<le> n then NegInf else PosInf)"
| "binary64_div_int (Finite x) n =
     (if n = 0 then (if 0 < x then PosInf else if x < 0 then NegInf else NaN)
      else (case to_binary64 (of_int n) of
              Finite d \<Rightarrow> to_binary64 (x / d)
            | _ \<Rightarrow> Finite 0))"

text \<open>
  The arithmetic of \<^verbatim>\<open>float64\<close> arrays. How numpy coerces a value that is no
  array does not belong to the dtype and stays a parameter.
\<close>

definition float64 ::
  "(binary64 ndarray \<Rightarrow> binary64 pyval \<Rightarrow> error + binary64 ndarray) \<Rightarrow> binary64 numpy" where
  "float64 coerce =
     \<lparr>elem_add = binary64_add,
      elem_radd_int = (\<lambda>i y. binary64_add (to_binary64 (of_int i)) y),
      elem_div_int = binary64_div_int,
      coerce_add = coerce\<rparr>"

section \<open>What the spec calls the mean, and the data between the layers\<close>

text \<open>
  The spec's mean of numbers: the sum (as the builtin \<^verbatim>\<open>sum\<close> adds, from the
  int \<^verbatim>\<open>0\<close> and from the left) divided by the count.
\<close>

fun mean_of :: "'a numpy \<Rightarrow> 'a list \<Rightarrow> 'a" where
  "mean_of np (x # xs) =
     elem_div_int np (foldl (elem_add np) (elem_radd_int np 0 x) xs) (int (length (x # xs)))"

text \<open>
  The spec's elementwise mean of arrays of one shape: the array of that shape
  whose element at each position is the mean of the arrays' elements there.
\<close>

fun elementwise_mean :: "'a numpy \<Rightarrow> 'a ndarray list \<Rightarrow> 'a ndarray" where
  "elementwise_mean np (a # as) =
     NDArray (shape a)
       (map (\<lambda>j. mean_of np (map (\<lambda>b. elems b ! j) (a # as))) [0..<length (elems a)])"

text \<open>Arrays of one shape, each with as many elements as the shape says.\<close>

definition same_shape :: "'a ndarray list \<Rightarrow> bool" where
  "same_shape as = list_all (\<lambda>a. shape a = shape (hd as) \<and> wf_ndarray a) as"

text \<open>Arrays that agree in their shape and in the number of their elements.\<close>

definition uniform :: "'a ndarray list \<Rightarrow> bool" where
  "uniform as =
     list_all (\<lambda>a. shape a = shape (hd as) \<and> length (elems a) = length (elems (hd as))) as"

text \<open>
  Slot \<open>i\<close> of a list of tuples: the \<open>i\<close>-th components, in the order of
  the list. The least arity is the length of the shortest tuple.
\<close>

definition slot :: "'b list list \<Rightarrow> nat \<Rightarrow> 'b list" where
  "slot xss i = map (\<lambda>xs. xs ! i) xss"

definition least_arity :: "'b list list \<Rightarrow> nat" where
  "least_arity xss = Min (set (map length xss))"

text \<open>
  The mean of \<open>k\<close> copies of a prediction: of every element of an array, and
  slot by slot in a tuple.
\<close>

fun mean_of_copies :: "'a numpy \<Rightarrow> nat \<Rightarrow> 'a pyval \<Rightarrow> 'a pyval" where
  "mean_of_copies np k (Arr a) =
     Arr (NDArray (shape a) (map (\<lambda>x. mean_of np (replicate k x)) (elems a)))"
| "mean_of_copies np k (Tup xs) = Tup (map (mean_of_copies np k) xs)"
| "mean_of_copies np k (Lst xs) = Lst xs"
| "mean_of_copies np k NoneV = NoneV"

text \<open>
  The spec's pipeline: \<open>layer_input ls d reset i\<close> is the data that layer \<open>i\<close>
  receives when \<open>d\<close> is fed to the layers \<open>ls\<close>. Layer 0 receives \<open>d\<close>, and
  layer \<open>i + 1\<close> receives what layer \<open>i\<close>, called in its own state with its
  input and the flag \<open>reset\<close>, returns. An exception of a layer stays.
\<close>

fun layer_input ::
  "('a, 's) layer list \<Rightarrow> 'a pyval \<Rightarrow> bool \<Rightarrow> nat \<Rightarrow> error + 'a pyval" where
  "layer_input ls d reset 0 = Inr d"
| "layer_input ls d reset (Suc i) =
     (case layer_input ls d reset i of
        Inl e \<Rightarrow> Inl e
      | Inr x \<Rightarrow> fst (activate (ls ! i) (state (ls ! i)) x reset))"

text \<open>A layer without state that returns the same output for every input.\<close>

definition constant_layer :: "'a pyval \<Rightarrow> ('a, unit) layer" where
  "constant_layer out =
     \<lparr>activate = (\<lambda>s d r. (Inr out, s)), reset_state = (\<lambda>s. (None, s)), state = ()\<rparr>"

text \<open>
  A layer without state that returns the number of dimensions of the array it
  receives, as a 0-dimensional array, and raises for any other input.
\<close>

definition ndim_layer :: "(rat, unit) layer" where
  "ndim_layer =
     \<lparr>activate = (\<lambda>s d r.
        (case d of
           Arr a \<Rightarrow> (Inr (Arr (NDArray [] [of_nat (ndim a)])), s)
         | _ \<Rightarrow> (Inl TypeError, s))),
      reset_state = (\<lambda>s. (None, s)),
      state = ()\<rparr>"

section \<open>Lemmas on the average\<close>

lemma sum_from_arrays:
  "list_all (\<lambda>b. shape b = shape acc \<and> length (elems b) = length (elems acc)) bs \<Longrightarrow>
   sum_from np acc (map Arr bs) =
     Inr (NDArray (shape acc)
            (map (\<lambda>j. foldl (elem_add np) (elems acc ! j) (map (\<lambda>b. elems b ! j) bs))
               [0..<length (elems acc)]))"
proof (induction bs arbitrary: acc)
  case Nil
  then show ?case by (simp add: map_nth)
next
  case (Cons b bs)
  define acc' where "acc' = NDArray (shape acc) (map2 (elem_add np) (elems acc) (elems b))"
  have step: "array_add np acc b = Inr acc'"
    using Cons.prems by (simp add: array_add_def acc'_def)
  have len: "length (elems acc') = length (elems acc)"
    using Cons.prems by (simp add: acc'_def)
  have shp: "shape acc' = shape acc"
    by (simp add: acc'_def)
  have all: "list_all (\<lambda>b. shape b = shape acc' \<and> length (elems b) = length (elems acc')) bs"
    using Cons.prems by (simp add: len shp)
  have nth: "elems acc' ! j = elem_add np (elems acc ! j) (elems b ! j)"
    if "j < length (elems acc)" for j
    using that Cons.prems by (simp add: acc'_def)
  have "sum_from np acc (map Arr (b # bs)) = sum_from np acc' (map Arr bs)"
    by (simp add: step)
  also have "\<dots> = Inr (NDArray (shape acc)
            (map (\<lambda>j. foldl (elem_add np) (elems acc' ! j) (map (\<lambda>b. elems b ! j) bs))
               [0..<length (elems acc)]))"
    using Cons.IH [OF all] by (simp add: len shp)
  also have "\<dots> = Inr (NDArray (shape acc)
            (map (\<lambda>j. foldl (elem_add np) (elems acc ! j) (map (\<lambda>b. elems b ! j) (b # bs)))
               [0..<length (elems acc)]))"
    by (simp add: nth cong: map_cong)
  finally show ?case .
qed

lemma avg_arrays:
  assumes "list_all (\<lambda>b. shape b = shape a \<and> length (elems b) = length (elems a)) as"
  shows "avg np (map Arr (a # as)) = Inr (Arr (elementwise_mean np (a # as)))"
proof -
  define acc where "acc = NDArray (shape a) (map (elem_radd_int np 0) (elems a))"
  have all: "list_all (\<lambda>b. shape b = shape acc \<and> length (elems b) = length (elems acc)) as"
    using assms by (simp add: acc_def)
  show ?thesis
    using sum_from_arrays [OF all, of np]
    by (simp add: acc_def array_div_int_def comp_def cong: map_cong)
qed

lemma foldr_min_Min: "foldr min ns (n::nat) = Min (set (n # ns))"
proof (induction ns)
  case Nil
  show ?case by simp
next
  case (Cons a ns)
  have "Min (set (n # a # ns)) = Min (insert a (set (n # ns)))"
    by (simp add: insert_commute)
  also have "\<dots> = min a (Min (set (n # ns)))"
    by (rule Min_insert) simp_all
  finally show ?case using Cons.IH by simp
qed

lemma zip_lists_slots:
  "xss \<noteq> [] \<Longrightarrow> zip_lists xss = map (slot xss) [0..<least_arity xss]"
  by (cases xss) (simp_all add: zip_lists_def slot_def least_arity_def foldr_min_Min)

lemma iter_all_tuples: "iter_all (map Tup xss) = Inr xss"
  by (induction xss) simp_all

lemma avg_each_map:
  "(\<forall>x \<in> set xs. avg np (g x) = Inr (f x)) \<Longrightarrow> avg_each np (map g xs) = Inr (map f xs)"
  by (induction xs) simp_all

lemma least_arity_le: "xs \<in> set xss \<Longrightarrow> least_arity xss \<le> length xs"
  by (simp add: least_arity_def)

lemma slot_map_Arr:
  assumes "i < least_arity ass"
  shows "slot (map (map Arr) ass) i = map Arr (slot ass i)"
proof -
  have "i < length as" if "as \<in> set ass" for as
    using least_arity_le [OF that] assms by simp
  then show ?thesis by (simp add: slot_def)
qed

lemma least_arity_map [simp]: "least_arity (map (map f) xss) = least_arity xss"
  by (simp add: least_arity_def comp_def)

lemma same_shape_uniform: "same_shape as \<Longrightarrow> uniform as"
  by (cases as) (auto simp: same_shape_def uniform_def wf_ndarray_def list_all_iff)

lemma uniform_avg:
  assumes "as \<noteq> []" and "uniform as"
  shows "avg np (map Arr as) = Inr (Arr (elementwise_mean np as))"
proof -
  obtain a rest where as: "as = a # rest"
    using assms(1) by (cases as) auto
  have "list_all (\<lambda>b. shape b = shape a \<and> length (elems b) = length (elems a)) rest"
    using assms(2) by (simp add: as uniform_def)
  from avg_arrays [OF this] show ?thesis by (simp add: as)
qed

lemma avg_tuples_slots:
  assumes "ass \<noteq> []" and "\<forall>i < least_arity ass. uniform (slot ass i)"
  shows "avg_tuples np (map (\<lambda>as. Tup (map Arr as)) ass) =
           Inr (Tup (map (\<lambda>i. Arr (elementwise_mean np (slot ass i))) [0..<least_arity ass]))"
proof -
  have preds: "map (\<lambda>as. Tup (map Arr as)) ass = map Tup (map (map Arr) ass)"
    by simp
  have groups: "zip_star (map (\<lambda>as. Tup (map Arr as)) ass) =
      Inr (map (slot (map (map Arr) ass)) [0..<least_arity ass])"
    unfolding preds zip_star_def iter_all_tuples
    using assms(1) by (simp add: zip_lists_slots)
  have each: "\<forall>i \<in> set [0..<least_arity ass].
      avg np (slot (map (map Arr) ass) i) = Inr (Arr (elementwise_mean np (slot ass i)))"
  proof
    fix i assume "i \<in> set [0..<least_arity ass]"
    then have i: "i < least_arity ass" by simp
    have ne: "slot ass i \<noteq> []"
      using assms(1) by (simp add: slot_def)
    show "avg np (slot (map (map Arr) ass) i) = Inr (Arr (elementwise_mean np (slot ass i)))"
      using uniform_avg [OF ne] assms(2) i by (simp add: slot_map_Arr)
  qed
  show ?thesis
    unfolding avg_tuples_def groups
    using avg_each_map [OF each] by simp
qed

lemma mean_of_exact_arith:
  "xs \<noteq> [] \<Longrightarrow> mean_of exact_arith xs = sum_list xs / of_nat (length xs)"
proof -
  have fold: "foldl (+) (a::rat) ys = a + sum_list ys" for a ys
    by (induction ys arbitrary: a) (simp_all add: add.assoc)
  assume "xs \<noteq> []"
  then obtain x ys where "xs = x # ys" by (cases xs) auto
  then show ?thesis by (simp add: exact_arith_def fold)
qed

section \<open>The claims on average\_predictions\<close>

text \<open>
  C5: a list of exactly one prediction is returned as its only element,
  unchanged, whatever the element is.
\<close>

theorem average_predictions_single: "average_predictions np [p] = Inr p"
  by (simp add: average_predictions_def)

text \<open>
  C9: for the empty list of predictions \<^verbatim>\<open>predictions[0]\<close> raises
  \<^verbatim>\<open>IndexError\<close>; no value is returned.
\<close>

theorem average_predictions_empty: "average_predictions np [] = Inl IndexError"
  by (simp add: average_predictions_def)

text \<open>
  C2: for two or more arrays of one shape, \<open>average_predictions\<close> returns their
  elementwise mean, the sum of the arrays divided by their number.
\<close>

theorem average_predictions_arrays:
  assumes "2 \<le> length as" and "same_shape as"
  shows "average_predictions np (map Arr as) = Inr (Arr (elementwise_mean np as))"
proof -
  from assms(1) obtain a b rest where as: "as = a # b # rest"
    by (cases as; cases "tl as") auto
  have "average_predictions np (map Arr as) = avg np (map Arr as)"
    by (simp add: as average_predictions_def)
  also have "\<dots> = Inr (Arr (elementwise_mean np as))"
    by (rule uniform_avg [OF _ same_shape_uniform [OF assms(2)]]) (simp add: as)
  finally show ?thesis .
qed

theorem average_predictions_arrays_witness:
  "2 \<le> length [NDArray [1] [1], NDArray [1] [3::rat]] \<and>
   same_shape [NDArray [1] [1], NDArray [1] [3::rat]] \<and>
   average_predictions exact_arith [Arr (NDArray [1] [1]), Arr (NDArray [1] [3])] =
     Inr (Arr (NDArray [1] [2]))"
proof -
  have h1: "2 \<le> length [NDArray [1] [1], NDArray [1] [3::rat]]" by simp
  have h2: "same_shape [NDArray [1] [1], NDArray [1] [3::rat]]"
    by (simp add: same_shape_def wf_ndarray_def)
  show ?thesis
    using h1 h2 average_predictions_arrays [OF h1 h2, of exact_arith]
    by (simp add: exact_arith_def)
qed

text \<open>
  C1: for two or more tuples of one arity \<open>k\<close>, of arrays that have one shape
  in each slot, \<open>average_predictions\<close> returns the \<open>k\<close>-tuple whose slot
  \<open>i\<close> is the elementwise mean of slot \<open>i\<close> of all the tuples, in the order
  of the slots. For a list of two or more predictions the branch is chosen by the
  first prediction alone: the branch for tuples if it is a tuple, the plain
  average of the list if it is not, whatever the other predictions are. A tuple
  is a tuple; an array, a list and \<^verbatim>\<open>None\<close> are not.
\<close>

theorem average_predictions_tuples:
  assumes "2 \<le> length ass" and "\<forall>as \<in> set ass. length as = k"
    and "\<forall>i < k. same_shape (slot ass i)"
  shows "average_predictions (np :: 'a numpy) (map (\<lambda>as. Tup (map Arr as)) ass) =
           Inr (Tup (map (\<lambda>i. Arr (elementwise_mean np (slot ass i))) [0..<k]))
         \<and> (\<forall>p rest. rest \<noteq> [] \<longrightarrow>
               average_predictions np (p # rest) =
                 (if isinstance_tuple p then avg_tuples np (p # rest)
                  else avg np (p # rest)))
         \<and> (\<forall>xs. isinstance_tuple (Tup xs :: 'a pyval))
         \<and> (\<forall>a. \<not> isinstance_tuple (Arr a :: 'a pyval))
         \<and> (\<forall>xs. \<not> isinstance_tuple (Lst xs :: 'a pyval))
         \<and> \<not> isinstance_tuple (NoneV :: 'a pyval)"
proof -
  from assms(1) obtain a b rest where ass: "ass = a # b # rest"
    by (cases ass; cases "tl ass") auto
  have ne: "ass \<noteq> []" by (simp add: ass)
  have "set (map length ass) = {k}"
    using assms(2) by (auto simp: ass)
  then have k: "least_arity ass = k"
    by (simp add: least_arity_def)
  have "average_predictions np (map (\<lambda>as. Tup (map Arr as)) ass) =
        avg_tuples np (map (\<lambda>as. Tup (map Arr as)) ass)"
    by (simp add: ass average_predictions_def)
  also have "\<dots> = Inr (Tup (map (\<lambda>i. Arr (elementwise_mean np (slot ass i))) [0..<k]))"
    using avg_tuples_slots [OF ne, of np] assms(3) by (simp add: k same_shape_uniform)
  finally have main: "average_predictions np (map (\<lambda>as. Tup (map Arr as)) ass) =
           Inr (Tup (map (\<lambda>i. Arr (elementwise_mean np (slot ass i))) [0..<k]))" .
  have "average_predictions np (p # rest) =
          (if isinstance_tuple p then avg_tuples np (p # rest) else avg np (p # rest))"
    if "rest \<noteq> []" for p and rest :: "'a pyval list"
    using that by (cases rest) (simp_all add: average_predictions_def)
  with main show ?thesis by simp
qed

theorem average_predictions_tuples_witness:
  "2 \<le> length [[NDArray [] [1], NDArray [] [10]], [NDArray [] [3], NDArray [] [20::rat]]] \<and>
   average_predictions exact_arith
     [Tup [Arr (NDArray [] [1]), Arr (NDArray [] [10])],
      Tup [Arr (NDArray [] [3]), Arr (NDArray [] [20])]] =
     Inr (Tup [Arr (NDArray [] [2]), Arr (NDArray [] [15])]) \<and>
   average_predictions exact_arith
     [Tup [Arr (NDArray [] [1]), Arr (NDArray [] [10])],
      Lst [Arr (NDArray [] [3]), Arr (NDArray [] [20])]] =
     Inr (Tup [Arr (NDArray [] [2]), Arr (NDArray [] [15])]) \<and>
   average_predictions exact_arith
     [Lst [Arr (NDArray [] [1]), Arr (NDArray [] [10])],
      Tup [Arr (NDArray [] [3]), Arr (NDArray [] [20])]] =
     Inl TypeError"
proof -
  let ?ass = "[[NDArray [] [1], NDArray [] [10]], [NDArray [] [3], NDArray [] [20::rat]]]"
  have h1: "2 \<le> length ?ass" by simp
  have h2: "\<forall>as \<in> set ?ass. length as = 2" by simp
  have h3: "\<forall>i < 2. same_shape (slot ?ass i)"
    by (auto dest!: less_2_cases simp: slot_def same_shape_def wf_ndarray_def)
  note fact = average_predictions_tuples [OF h1 h2 h3, of exact_arith]
  have w1: "average_predictions exact_arith
     [Tup [Arr (NDArray [] [1]), Arr (NDArray [] [10])],
      Tup [Arr (NDArray [] [3]), Arr (NDArray [] [20])]] =
     Inr (Tup [Arr (NDArray [] [2]), Arr (NDArray [] [15])])"
    using fact by (simp add: exact_arith_def slot_def numeral_2_eq_2)
  from fact have sel: "rest \<noteq> [] \<Longrightarrow>
      average_predictions exact_arith (p # rest) =
        (if isinstance_tuple p then avg_tuples exact_arith (p # rest)
         else avg exact_arith (p # rest))" for p rest
    by blast
  have w2: "average_predictions exact_arith
     [Tup [Arr (NDArray [] [1]), Arr (NDArray [] [10])],
      Lst [Arr (NDArray [] [3]), Arr (NDArray [] [20])]] =
     Inr (Tup [Arr (NDArray [] [2]), Arr (NDArray [] [15])])"
    by (simp only: sel [OF list.distinct(2)] isinstance_tuple.simps if_True)
      (simp add: avg_tuples_def zip_star_def zip_lists_def array_div_int_def
        array_add_def exact_arith_def upt_rec)
  have w3: "average_predictions exact_arith
     [Lst [Arr (NDArray [] [1]), Arr (NDArray [] [10])],
      Tup [Arr (NDArray [] [3]), Arr (NDArray [] [20])]] =
     Inl TypeError"
    by (simp add: sel)
  from h1 w1 w2 w3 show ?thesis by blast
qed

text \<open>
  C8, as stated, fails: tuples of arities 2 and 3 are averaged without any
  exception, and the third slot of the longer tuple is dropped.
\<close>

theorem arity_mismatch_returns_value:
  "average_predictions exact_arith
     [Tup [Arr (NDArray [] [1]), Arr (NDArray [] [10])],
      Tup [Arr (NDArray [] [3]), Arr (NDArray [] [20]), Arr (NDArray [] [7])]] =
     Inr (Tup [Arr (NDArray [] [2]), Arr (NDArray [] [15])])"
  by (simp add: average_predictions_def avg_tuples_def zip_star_def zip_lists_def
      array_div_int_def array_add_def exact_arith_def upt_rec)

text \<open>
  C8, amended: for two or more tuples of arrays, whatever their arities,
  \<^verbatim>\<open>zip\<close> stops at the least arity \<open>m\<close>, and when the arrays have one shape in
  each of the first \<open>m\<close> slots the result is the \<open>m\<close>-tuple of the means of
  these slots; no exception is raised for the differing arities.
\<close>

theorem average_predictions_least_arity:
  assumes "2 \<le> length ass" and "\<forall>i < least_arity ass. same_shape (slot ass i)"
  shows "average_predictions np (map (\<lambda>as. Tup (map Arr as)) ass) =
           Inr (Tup (map (\<lambda>i. Arr (elementwise_mean np (slot ass i))) [0..<least_arity ass]))"
proof -
  from assms(1) obtain a b rest where ass: "ass = a # b # rest"
    by (cases ass; cases "tl ass") auto
  have ne: "ass \<noteq> []" by (simp add: ass)
  have "average_predictions np (map (\<lambda>as. Tup (map Arr as)) ass) =
        avg_tuples np (map (\<lambda>as. Tup (map Arr as)) ass)"
    by (simp add: ass average_predictions_def)
  moreover have "\<forall>i < least_arity ass. uniform (slot ass i)"
    using assms(2) by (simp add: same_shape_uniform)
  ultimately show ?thesis
    using avg_tuples_slots [OF ne, of np] by simp
qed

theorem average_predictions_least_arity_witness:
  "2 \<le> length [[NDArray [] [1], NDArray [] [10]], [NDArray [] [3], NDArray [] [20], NDArray [] [7::rat]]] \<and>
   least_arity [[NDArray [] [1], NDArray [] [10]], [NDArray [] [3], NDArray [] [20], NDArray [] [7::rat]]] = 2 \<and>
   average_predictions exact_arith
     [Tup [Arr (NDArray [] [1]), Arr (NDArray [] [10])],
      Tup [Arr (NDArray [] [3]), Arr (NDArray [] [20]), Arr (NDArray [] [7])]] =
     Inr (Tup [Arr (NDArray [] [2]), Arr (NDArray [] [15])])"
proof -
  let ?ass = "[[NDArray [] [1], NDArray [] [10]], [NDArray [] [3], NDArray [] [20], NDArray [] [7::rat]]]"
  have h1: "2 \<le> length ?ass" by simp
  have m: "least_arity ?ass = 2" by (simp add: least_arity_def)
  have h2: "\<forall>i < least_arity ?ass. same_shape (slot ?ass i)"
    unfolding m by (auto dest!: less_2_cases simp: slot_def same_shape_def wf_ndarray_def)
  show ?thesis
    using h1 m average_predictions_least_arity [OF h1 h2, of exact_arith]
    by (simp add: exact_arith_def slot_def numeral_2_eq_2)
qed

section \<open>Lemmas on the layers\<close>

lemma layer_input_Cons:
  "layer_input (l # ls) d reset (Suc i) =
     (case fst (activate l (state l) d reset) of
        Inl e \<Rightarrow> Inl e
      | Inr out \<Rightarrow> layer_input ls out reset i)"
proof (induction i)
  case 0
  show ?case by (simp split: sum.splits)
next
  case (Suc i)
  have step: "layer_input (l # ls) d reset (Suc (Suc i)) =
      (case layer_input (l # ls) d reset (Suc i) of
         Inl e \<Rightarrow> Inl e
       | Inr x \<Rightarrow> fst (activate (ls ! i) (state (ls ! i)) x reset))"
    by (simp only: layer_input.simps(2) [of _ _ _ "Suc i"] nth_Cons_Suc)
  show ?case
    unfolding step Suc.IH by (simp split: sum.splits)
qed

lemma run_layers_layer_input:
  "fst (run_layers ls d reset) = layer_input ls d reset (length ls)"
proof (induction ls arbitrary: d)
  case Nil
  show ?case by simp
next
  case (Cons l ls)
  obtain r s' where act: "activate l (state l) d reset = (r, s')"
    by (cases "activate l (state l) d reset")
  show ?case
  proof (cases r)
    case (Inl e)
    then show ?thesis
      using act by (simp add: layer_input_Cons del: layer_input.simps)
  next
    case (Inr out)
    then have "fst (run_layers (l # ls) d reset) = fst (run_layers ls out reset)"
      using act by (simp split: prod.splits)
    also have "\<dots> = layer_input ls out reset (length ls)"
      by (rule Cons.IH)
    finally show ?thesis
      using act Inr by (simp add: layer_input_Cons del: layer_input.simps)
  qed
qed

lemma fst_feed_layers:
  "fst (feed_layers nn d reset) =
     (case layer_input (layers nn) d reset (length (layers nn)) of
        Inl e \<Rightarrow> Inl e
      | Inr out \<Rightarrow> squeeze_predictions out)"
proof -
  have "fst (feed_layers nn d reset) =
     (case fst (run_layers (layers nn) d reset) of
        Inl e \<Rightarrow> Inl e
      | Inr out \<Rightarrow> squeeze_predictions out)"
    by (simp add: feed_layers_def split: prod.splits sum.splits)
  then show ?thesis by (simp add: run_layers_layer_input)
qed

lemma squeeze_all_arrays: "squeeze_all (map Arr as) = Inr (map (\<lambda>a. Arr (squeeze a)) as)"
  by (induction as) simp_all

lemma squeeze_all_not_array:
  "squeeze_all (map Arr as @ NoneV # xs) = Inl AttributeError"
  by (induction as) simp_all

section \<open>The claims on NeuralNetwork\<close>

text \<open>
  C3: \<open>process\<close> feeds the input, made at least 2-dimensional, to the layers
  in the order of the list, every layer with the same flag \<open>reset\<close>; an exception
  of a layer is the result. A last output that is an array is returned squeezed;
  a last output that is a list or tuple of arrays is returned as the tuple of the
  squeezed arrays, in their order; an exception raised while the items are
  squeezed (\<^verbatim>\<open>None\<close> cannot be iterated, an item that is no array has no
  \<^verbatim>\<open>squeeze\<close>) is the result.
\<close>

theorem process_pipes_and_squeezes:
  "fst (NeuralNetwork_process nn data reset) =
     (case layer_input (layers nn) (at_least_2d data) reset (length (layers nn)) of
        Inl e \<Rightarrow> Inl e
      | Inr out \<Rightarrow> squeeze_predictions out)
   \<and> squeeze_predictions (Arr a) = Inr (Arr (NDArray (filter (\<lambda>d. d \<noteq> 1) (shape a)) (elems a)))
   \<and> squeeze_predictions (Lst (map Arr as)) = Inr (Tup (map (\<lambda>a. Arr (squeeze a)) as))
   \<and> squeeze_predictions (Tup (map Arr as)) = Inr (Tup (map (\<lambda>a. Arr (squeeze a)) as))
   \<and> squeeze_predictions NoneV = Inl TypeError
   \<and> squeeze_predictions (Lst (map Arr as @ NoneV # xs)) = Inl AttributeError"
  by (simp add: NeuralNetwork_process_def fst_feed_layers squeeze_predictions_def
      squeeze_all_arrays squeeze_all_not_array squeeze_def)

lemma ndim_array_ndmin2: "ndim a < 2 \<Longrightarrow> ndim (array_ndmin2 a) = 2"
  by (simp add: array_ndmin2_def ndim_def)

text \<open>
  C6: an array of fewer than 2 dimensions is given 2 dimensions, with the same
  elements, before the layers are fed; a value that is no array is fed as it is.
  Feeding the layers begins with the call of the first layer on that data.
\<close>

theorem process_normalizes_input:
  "NeuralNetwork_process nn (Arr a) reset =
     feed_layers nn (Arr (if ndim a < 2 then array_ndmin2 a else a)) reset
   \<and> (ndim a < 2 \<longrightarrow>
        ndim (array_ndmin2 a) = 2 \<and> elems (array_ndmin2 a) = elems a \<and>
        shape (array_ndmin2 a) = replicate (2 - ndim a) 1 @ shape a)
   \<and> ((\<forall>b. v \<noteq> Arr b) \<longrightarrow> NeuralNetwork_process nn v reset = feed_layers nn v reset)
   \<and> (layers nn = l # rest \<longrightarrow>
        fst (feed_layers nn d reset) =
          (case activate l (state l) d reset of
             (Inl e, s') \<Rightarrow> Inl e
           | (Inr out, s') \<Rightarrow> fst (feed_layers (nn\<lparr>layers := rest\<rparr>) out reset)))"
proof -
  have 1: "NeuralNetwork_process nn (Arr a) reset =
     feed_layers nn (Arr (if ndim a < 2 then array_ndmin2 a else a)) reset"
    by (simp add: NeuralNetwork_process_def)
  have 2: "ndim a < 2 \<longrightarrow>
        ndim (array_ndmin2 a) = 2 \<and> elems (array_ndmin2 a) = elems a \<and>
        shape (array_ndmin2 a) = replicate (2 - ndim a) 1 @ shape a"
    by (simp add: ndim_array_ndmin2) (simp add: array_ndmin2_def)
  have 3: "(\<forall>b. v \<noteq> Arr b) \<longrightarrow> NeuralNetwork_process nn v reset = feed_layers nn v reset"
    by (cases v) (simp_all add: NeuralNetwork_process_def)
  have 4: "layers nn = l # rest \<longrightarrow>
        fst (feed_layers nn d reset) =
          (case activate l (state l) d reset of
             (Inl e, s') \<Rightarrow> Inl e
           | (Inr out, s') \<Rightarrow> fst (feed_layers (nn\<lparr>layers := rest\<rparr>) out reset))"
    by (simp add: feed_layers_def split: prod.splits sum.splits)
  from 1 2 3 4 show ?thesis by blast
qed

theorem process_normalizes_input_witness:
  "ndim (NDArray [3] [5, 6, 7 :: rat]) < 2 \<and>
   layers \<lparr>layers = [ndim_layer]\<rparr> = ndim_layer # [] \<and>
   fst (NeuralNetwork_process \<lparr>layers = [ndim_layer]\<rparr> (Arr (NDArray [3] [5, 6, 7])) True) =
     Inr (Arr (NDArray [] [2])) \<and>
   (\<forall>b. (NoneV :: rat pyval) \<noteq> Arr b) \<and>
   fst (NeuralNetwork_process \<lparr>layers = [ndim_layer]\<rparr> NoneV True) = Inl TypeError"
  using process_normalizes_input
    [of "\<lparr>layers = [ndim_layer]\<rparr>" "NDArray [3] [5, 6, 7]" True NoneV ndim_layer "[]"
        "Arr (array_ndmin2 (NDArray [3] [5, 6, 7]))"]
    process_normalizes_input
    [of "\<lparr>layers = [ndim_layer]\<rparr>" "NDArray [3] [5, 6, 7]" True NoneV ndim_layer "[]" NoneV]
  by (simp add: ndim_def ndim_layer_def array_ndmin2_def feed_layers_def
      squeeze_predictions_def squeeze_def)

text \<open>
  C10: a network without layers returns the array it is given, made at least
  2-dimensional and squeezed (which leaves the axes of the input that are not of
  size 1), any other input as the final squeeze makes it, and stays as it is;
  its \<open>reset\<close> changes nothing and raises nothing.
\<close>

theorem empty_network_identity:
  "NeuralNetwork_process (\<lparr>layers = []\<rparr> :: ('a, 's) NeuralNetwork) (Arr a) reset =
     (Inr (Arr (squeeze (if ndim a < 2 then array_ndmin2 a else a))), \<lparr>layers = []\<rparr>)
   \<and> squeeze (if ndim a < 2 then array_ndmin2 a else a) =
       NDArray (filter (\<lambda>d. d \<noteq> 1) (shape a)) (elems a)
   \<and> NeuralNetwork_process (\<lparr>layers = []\<rparr> :: ('a, 's) NeuralNetwork) data reset =
       (squeeze_predictions (at_least_2d data), \<lparr>layers = []\<rparr>)
   \<and> NeuralNetwork_reset (\<lparr>layers = []\<rparr> :: ('a, 's) NeuralNetwork) = (None, \<lparr>layers = []\<rparr>)"
  by (simp add: NeuralNetwork_process_def feed_layers_def NeuralNetwork_reset_def
      squeeze_predictions_def squeeze_def array_ndmin2_def)

section \<open>Lemmas on the ensemble\<close>

lemma filter_key_single:
  "distinct (map g ys) \<Longrightarrow> k \<in> set ys \<Longrightarrow> filter (\<lambda>x. g k = g x) ys = [k]"
proof (induction ys)
  case Nil
  then show ?case by simp
next
  case (Cons y ys)
  show ?case
  proof (cases "k = y")
    case True
    have "g y \<notin> g ` set ys"
      using Cons.prems(1) by simp
    then have "\<forall>x \<in> set ys. g y \<noteq> g x"
      by blast
    then have "filter (\<lambda>x. g y = g x) ys = []"
      by (simp add: filter_empty_conv)
    then show ?thesis using True by simp
  next
    case False
    then have k: "k \<in> set ys" using Cons.prems(2) by simp
    then have "g k \<in> g ` set ys" by simp
    moreover have "g y \<notin> g ` set ys" using Cons.prems(1) by simp
    ultimately have "g k \<noteq> g y" by metis
    then show ?thesis using Cons.IH k Cons.prems(1) by simp
  qed
qed

lemma sort_key_permuted:
  assumes perm: "mset xs = mset ys" and sorted: "sorted (map g ys)" and dist: "distinct (map g ys)"
  shows "sort_key g xs = ys"
proof (rule properties_for_sort_key)
  show "mset ys = mset xs" using perm by simp
  show "sorted (map g ys)" by (rule sorted)
  fix k assume k: "k \<in> set ys"
  have ys: "filter (\<lambda>x. g k = g x) ys = [k]"
    by (rule filter_key_single [OF dist k])
  have "mset (filter (\<lambda>x. g k = g x) xs) = mset (filter (\<lambda>x. g k = g x) ys)"
    by (simp add: perm)
  then have "mset (filter (\<lambda>x. g k = g x) xs) = {#k#}"
    by (simp add: ys)
  then have "filter (\<lambda>x. g k = g x) xs = [k]"
    by (simp only: mset_single_iff)
  then show "filter (\<lambda>x. g k = g x) ys = filter (\<lambda>x. g k = g x) xs"
    by (simp add: ys)
qed

lemma map_snd_enumerate: "map snd (zip [0..<length xs] xs) = xs"
  by (simp add: map_snd_zip)

lemma gathered_in_order:
  assumes "mset (completion (zip [0..<length nets] nets)) = mset (zip [0..<length nets] nets)"
  shows "map snd (sort_key fst (map (\<lambda>(i, nn). (i, f nn)) (completion (zip [0..<length nets] nets))))
           = map f nets"
proof -
  let ?tasks = "zip [0..<length nets] nets"
  let ?run = "\<lambda>(i, nn). (i, f nn)"
  have keys: "map fst (map ?run ?tasks) = [0..<length nets]"
    by (simp add: comp_def case_prod_unfold map_fst_zip)
  have "sort_key fst (map ?run (completion ?tasks)) = map ?run ?tasks"
  proof (rule sort_key_permuted)
    show "mset (map ?run (completion ?tasks)) = mset (map ?run ?tasks)"
      using assms by (metis mset_map)
    show "sorted (map fst (map ?run ?tasks))" unfolding keys by simp
    show "distinct (map fst (map ?run ?tasks))" unfolding keys by simp
  qed
  then have "map snd (sort_key fst (map ?run (completion ?tasks))) = map snd (map ?run ?tasks)"
    by simp
  also have "\<dots> = map (\<lambda>x. f (snd x)) ?tasks"
    by (simp add: case_prod_unfold)
  also have "\<dots> = map f (map snd ?tasks)"
    by (simp only: map_map comp_def)
  also have "\<dots> = map f nets"
    by (simp only: map_snd_enumerate)
  finally show ?thesis .
qed

lemma sequence_results_Inr: "sequence_results (map Inr xs) = Inr xs"
  by (induction xs) simp_all

lemma sequence_results_all_Inr:
  "(\<forall>r \<in> set rs. \<exists>x. r = Inr x) \<Longrightarrow> \<exists>xs. sequence_results rs = Inr xs"
proof (induction rs)
  case Nil
  show ?case by simp
next
  case (Cons r rs)
  then obtain x xs where "r = Inr x" and "sequence_results rs = Inr xs"
    by auto
  then show ?case by simp
qed

lemma parallel_all_succeed:
  assumes perm: "mset (completion (zip [0..<length nets] nets)) = mset (zip [0..<length nets] nets)"
    and ok: "map (\<lambda>nn. fst (NeuralNetwork_process nn data reset)) nets = map Inr ps"
  shows "fst (ParallelProcessor_process completion \<lparr>processors = nets, num_threads = t\<rparr> data reset)
           = Inr ps"
proof -
  let ?tasks = "zip [0..<length nets] nets"
  let ?f = "\<lambda>nn. NeuralNetwork_process nn data reset"
  let ?finished = "map (\<lambda>(i, nn). (i, ?f nn)) (completion ?tasks)"
  have gathered: "map snd (sort_key fst ?finished) = map ?f nets"
    using perm
    by (rule gathered_in_order
        [where completion = completion and nets = nets
           and f = "\<lambda>nn. NeuralNetwork_process nn data reset"])
  have in_order: "map fst (map snd (sort_key fst ?finished)) = map Inr ps"
    unfolding gathered using ok by (simp add: comp_def)
  have "set (completion ?tasks) = set ?tasks"
    using perm by (metis set_mset_mset)
  then have sub: "set (map snd (completion ?tasks)) \<subseteq> set nets"
    by (auto dest: set_zip_rightD)
  have "\<forall>r \<in> set (map (\<lambda>(i, r, nn). r) ?finished). \<exists>x. r = Inr x"
  proof
    fix r assume "r \<in> set (map (\<lambda>(i, r, nn). r) ?finished)"
    then obtain nn where nn: "nn \<in> set nets" and r: "r = fst (?f nn)"
      using sub by (auto simp: case_prod_unfold)
    have "fst (?f nn) \<in> set (map (\<lambda>nn. fst (?f nn)) nets)"
      using nn by simp
    then have "fst (?f nn) \<in> set (map Inr ps)"
      by (simp only: ok)
    then show "\<exists>x. r = Inr x" using r by auto
  qed
  from sequence_results_all_Inr [OF this]
  obtain xs where first: "sequence_results (map (\<lambda>(i, r, nn). r) ?finished) = Inr xs" ..
  show ?thesis
    by (simp only: ParallelProcessor_process_def Let_def fst_conv
        ParallelProcessor.select_convs first in_order sequence_results_Inr sum.case)
qed

lemma squeeze_all_arrays_only:
  "squeeze_all xs = Inr ys \<Longrightarrow> \<exists>as. ys = map Arr as"
proof (induction xs arbitrary: ys)
  case Nil
  then show ?case by simp
next
  case (Cons x xs)
  from Cons.prems obtain y ys' where y: "py_squeeze x = Inr y"
    and ys': "squeeze_all xs = Inr ys'" and ys: "ys = y # ys'"
    by (auto split: sum.splits)
  from y obtain a where "y = Arr a"
    by (cases x) auto
  moreover from Cons.IH [OF ys'] obtain as where "ys' = map Arr as" ..
  ultimately have "ys = map Arr (a # as)"
    using ys by simp
  then show ?case ..
qed

lemma squeeze_predictions_cases:
  assumes "squeeze_predictions out = Inr p"
  shows "(\<exists>a. p = Arr a) \<or> (\<exists>as. p = Tup (map Arr as))"
proof (cases out)
  case (Arr a)
  then show ?thesis using assms by (auto simp: squeeze_predictions_def)
next
  case (Tup xs)
  then obtain ys where "squeeze_all xs = Inr ys" and "p = Tup ys"
    using assms by (auto simp: squeeze_predictions_def split: sum.splits)
  then show ?thesis using squeeze_all_arrays_only by blast
next
  case (Lst xs)
  then obtain ys where "squeeze_all xs = Inr ys" and "p = Tup ys"
    using assms by (auto simp: squeeze_predictions_def split: sum.splits)
  then show ?thesis using squeeze_all_arrays_only by blast
next
  case NoneV
  then show ?thesis using assms by (simp add: squeeze_predictions_def)
qed

lemma process_result_cases:
  assumes "fst (NeuralNetwork_process nn data reset) = Inr p"
  shows "(\<exists>a. p = Arr a) \<or> (\<exists>as. p = Tup (map Arr as))"
proof -
  from assms obtain out where "squeeze_predictions out = Inr p"
    by (auto simp: NeuralNetwork_process_def feed_layers_def split: prod.splits sum.splits)
  then show ?thesis by (rule squeeze_predictions_cases)
qed

lemma map_nth_fun: "map (\<lambda>j. f (xs ! j)) [0..<length xs] = map f xs"
  by (rule nth_equalityI) simp_all

lemma elementwise_mean_replicate:
  "elementwise_mean np (replicate (Suc k) a) =
     NDArray (shape a) (map (\<lambda>x. mean_of np (replicate (Suc k) x)) (elems a))"
proof -
  have "map (\<lambda>j. mean_of np (map (\<lambda>b. elems b ! j) (a # replicate k a))) [0..<length (elems a)]
        = map (\<lambda>j. mean_of np (replicate (Suc k) (elems a ! j))) [0..<length (elems a)]"
    by (simp add: map_replicate)
  also have "\<dots> = map (\<lambda>x. mean_of np (replicate (Suc k) x)) (elems a)"
    by (rule map_nth_fun)
  finally show ?thesis by simp
qed

lemma uniform_replicate: "uniform (replicate k a)"
  by (cases k) (simp_all add: uniform_def list_all_iff)

lemma average_copies_array:
  "average_predictions np (replicate (Suc (Suc k)) (Arr a)) =
     Inr (mean_of_copies np (Suc (Suc k)) (Arr a))"
proof -
  have "average_predictions np (replicate (Suc (Suc k)) (Arr a)) =
        avg np (map Arr (replicate (Suc (Suc k)) a))"
    by (simp add: average_predictions_def)
  also have "\<dots> = Inr (Arr (elementwise_mean np (replicate (Suc (Suc k)) a)))"
    by (rule uniform_avg) (simp_all add: uniform_replicate del: replicate.simps)
  finally show ?thesis
    by (simp only: elementwise_mean_replicate mean_of_copies.simps)
qed

lemma least_arity_replicate: "least_arity (replicate (Suc k) xs) = length xs"
proof -
  have "set (map length (replicate (Suc k) xs)) = {length xs}"
    by (simp only: map_replicate set_replicate_Suc)
  then show ?thesis
    by (simp only: least_arity_def Min_singleton)
qed

lemma slot_replicate: "slot (replicate k xs) i = replicate k (xs ! i)"
  by (simp add: slot_def)

lemma average_copies_tuple:
  "average_predictions np (replicate (Suc (Suc k)) (Tup (map Arr as))) =
     Inr (mean_of_copies np (Suc (Suc k)) (Tup (map Arr as)))"
proof -
  let ?n = "Suc (Suc k)"
  let ?ass = "replicate ?n as"
  have preds: "replicate ?n (Tup (map Arr as)) = map (\<lambda>as. Tup (map Arr as)) ?ass"
    by (simp only: map_replicate)
  have ne: "?ass \<noteq> []" by simp
  have uni: "\<forall>i < least_arity ?ass. uniform (slot ?ass i)"
    by (simp only: slot_replicate uniform_replicate) simp
  have "average_predictions np (replicate ?n (Tup (map Arr as))) =
        avg_tuples np (replicate ?n (Tup (map Arr as)))"
    by (simp add: average_predictions_def)
  also have "\<dots> = Inr (Tup (map (\<lambda>i. Arr (elementwise_mean np (slot ?ass i)))
                               [0..<least_arity ?ass]))"
    unfolding preds by (rule avg_tuples_slots [OF ne uni])
  also have "map (\<lambda>i. Arr (elementwise_mean np (slot ?ass i))) [0..<least_arity ?ass] =
             map (\<lambda>i. mean_of_copies np ?n (Arr (as ! i))) [0..<length as]"
    by (simp only: least_arity_replicate slot_replicate elementwise_mean_replicate
        mean_of_copies.simps)
  also have "\<dots> = map (\<lambda>a. mean_of_copies np ?n (Arr a)) as"
    by (rule map_nth_fun)
  finally show ?thesis
    by (simp add: comp_def del: replicate.simps)
qed

lemma average_copies:
  assumes "(\<exists>a. p = Arr a) \<or> (\<exists>as. p = Tup (map Arr as))"
  shows "average_predictions np (replicate (Suc (Suc k)) p) =
           Inr (mean_of_copies np (Suc (Suc k)) p)"
  using assms average_copies_array average_copies_tuple by blast

lemma mean_of_copies_exact:
  assumes "\<forall>x. mean_of np (replicate k x) = x"
    and "(\<exists>a. p = Arr a) \<or> (\<exists>as. p = Tup (map Arr as))"
  shows "mean_of_copies np k p = p"
  using assms by (auto simp: comp_def)

lemma ensemble_identical_average:
  assumes "mset (completion (zip [0..<k] (replicate k nn))) = mset (zip [0..<k] (replicate k nn))"
    and "1 \<le> k"
    and "fst (NeuralNetwork_process nn data reset) = Inr p"
  shows "fst (NeuralNetworkEnsemble_process completion
                (NeuralNetworkEnsemble_init np (replicate k nn) Omitted threads) data reset) =
           Inr (if k = 1 then p else mean_of_copies np k p)"
proof -
  let ?nets = "replicate k nn"
  let ?t = "case threads of Omitted \<Rightarrow> None | Passed n \<Rightarrow> n"
  have shape: "(\<exists>a. p = Arr a) \<or> (\<exists>as. p = Tup (map Arr as))"
    using assms(3) by (rule process_result_cases)
  have perm: "mset (completion (zip [0..<length ?nets] ?nets)) = mset (zip [0..<length ?nets] ?nets)"
    using assms(1) by simp
  have ok: "map (\<lambda>nn. fst (NeuralNetwork_process nn data reset)) ?nets = map Inr (replicate k p)"
    using assms(3) by (simp only: map_replicate)
  have "fst (ParallelProcessor_process completion
          \<lparr>processors = ?nets, num_threads = ?t\<rparr> data reset) = Inr (replicate k p)"
    using perm ok
    by (rule parallel_all_succeed
        [where completion = completion and nets = "replicate k nn" and data = data
           and reset = reset and ps = "replicate k p"])
  then obtain pp where "ParallelProcessor_process completion
          \<lparr>processors = ?nets, num_threads = ?t\<rparr> data reset = (Inr (replicate k p), pp)"
    by (metis prod.collapse)
  then have ens: "fst (NeuralNetworkEnsemble_process completion
                (NeuralNetworkEnsemble_init np ?nets Omitted threads) data reset) =
           average_predictions np (replicate k p)"
    by (simp add: NeuralNetworkEnsemble_process_def NeuralNetworkEnsemble_init_def)
  have "average_predictions np (replicate k p) =
      Inr (if k = 1 then p else mean_of_copies np k p)"
  proof (cases "k = 1")
    case True
    then show ?thesis by (simp add: average_predictions_def)
  next
    case False
    with assms(2) obtain j where "k = Suc (Suc j)"
      by (cases k; cases "k - 1") auto
    then show ?thesis
      using average_copies [OF shape, of np j] by simp
  qed
  with ens show ?thesis by simp
qed

section \<open>Lemmas on rounding\<close>

lemma to_binary64_in_range:
  assumes "q \<noteq> 0"
    and "max (floor_log2 \<bar>q\<bar> - 52) (- 1074) = e"
    and "of_int (round_half_even (q / pow2 e)) * pow2 e = r"
    and "\<bar>r\<bar> < 4"
  shows "to_binary64 q = Finite r"
proof -
  have "(2::rat) ^ 2 \<le> 2 ^ 1024"
    by (rule power_increasing) simp_all
  then have "(4::rat) \<le> pow2 1024"
    by (simp add: pow2_def)
  then have "\<not> pow2 1024 \<le> \<bar>r\<bar>"
    using assms(4) by linarith
  then show ?thesis
    unfolding to_binary64_def Let_def assms(2) assms(3)
    using assms(1) by simp
qed

lemma binary64_one_fifth:
  "to_binary64 (1 / 5) = Finite (3602879701896397 / 18014398509481984)"
  by (rule to_binary64_in_range [where e = "- 55"]) code_simp+

lemma binary64_zero_plus_fifth:
  "binary64_add (Finite 0) (Finite (3602879701896397 / 18014398509481984)) =
     Finite (3602879701896397 / 18014398509481984)"
  unfolding binary64_add.simps
  by (rule to_binary64_in_range [where e = "- 55"]) code_simp+

lemma binary64_two_fifths:
  "binary64_add (Finite (3602879701896397 / 18014398509481984))
     (Finite (3602879701896397 / 18014398509481984)) =
     Finite (3602879701896397 / 9007199254740992)"
  unfolding binary64_add.simps
  by (rule to_binary64_in_range [where e = "- 54"]) code_simp+

lemma binary64_three_fifths:
  "binary64_add (Finite (3602879701896397 / 9007199254740992))
     (Finite (3602879701896397 / 18014398509481984)) =
     Finite (1351079888211149 / 2251799813685248)"
  unfolding binary64_add.simps
  by (rule to_binary64_in_range [where e = "- 53"]) code_simp+

lemma binary64_of_three: "to_binary64 3 = Finite 3"
  by (rule to_binary64_in_range [where e = "- 51"]) code_simp+

lemma binary64_three_fifths_by_three:
  "binary64_div_int (Finite (1351079888211149 / 2251799813685248)) 3 =
     Finite (7205759403792795 / 36028797018963968)"
proof -
  have "to_binary64 (1351079888211149 / 2251799813685248 / 3) =
      Finite (7205759403792795 / 36028797018963968)"
    by (rule to_binary64_in_range [where e = "- 55"]) code_simp+
  then show ?thesis
    by (simp add: binary64_of_three)
qed

lemma binary64_zero_plus_half: "binary64_add (Finite 0) (Finite (1 / 2)) = Finite (1 / 2)"
  unfolding binary64_add.simps
  by (rule to_binary64_in_range [where e = "- 53"]) code_simp+

lemma binary64_half_plus_half: "binary64_add (Finite (1 / 2)) (Finite (1 / 2)) = Finite 1"
  unfolding binary64_add.simps
  by (rule to_binary64_in_range [where e = "- 52"]) code_simp+

lemma binary64_one_plus_half: "binary64_add (Finite 1) (Finite (1 / 2)) = Finite (3 / 2)"
  unfolding binary64_add.simps
  by (rule to_binary64_in_range [where e = "- 52"]) code_simp+

lemma binary64_three_halves_by_three: "binary64_div_int (Finite (3 / 2)) 3 = Finite (1 / 2)"
proof -
  have "to_binary64 (3 / 2 / 3) = Finite (1 / 2)"
    by (rule to_binary64_in_range [where e = "- 53"]) code_simp+
  then show ?thesis
    by (simp add: binary64_of_three)
qed

lemma mean_of_three_halves:
  "mean_of (float64 c) (replicate 3 (Finite (1 / 2))) = Finite (1 / 2)"
  by (simp add: numeral_3_eq_3 float64_def to_binary64_def binary64_zero_plus_half
      binary64_half_plus_half binary64_one_plus_half binary64_three_halves_by_three
      del: binary64_add.simps binary64_div_int.simps)

lemma mean_of_three_fifths:
  "mean_of (float64 c) (replicate 3 (Finite (3602879701896397 / 18014398509481984))) =
     Finite (7205759403792795 / 36028797018963968)"
  by (simp add: numeral_3_eq_3 float64_def to_binary64_def binary64_zero_plus_fifth
      binary64_two_fifths binary64_three_fifths binary64_three_fifths_by_three
      del: binary64_add.simps binary64_div_int.simps)

section \<open>The claims on NeuralNetworkEnsemble\<close>

text \<open>
  C4: an ensemble built with the ensemble function explicitly \<^verbatim>\<open>None\<close>, whose
  member networks all return a prediction on the input, returns the list of
  these predictions: as many as there are networks, the \<open>i\<close>-th one being what
  the \<open>i\<close>-th network returns on that input, whatever the order in which the
  networks finish.
\<close>

theorem ensemble_without_combiner:
  assumes "mset (completion (zip [0..<length networks] networks)) =
             mset (zip [0..<length networks] networks)"
    and "map (\<lambda>nn. fst (NeuralNetwork_process nn data reset)) networks = map Inr ps"
  shows "fst (NeuralNetworkEnsemble_process completion
                (NeuralNetworkEnsemble_init np networks (Passed None) threads) data reset) =
           Inr (Lst ps)
         \<and> length ps = length networks
         \<and> (\<forall>i < length networks.
               fst (NeuralNetwork_process (networks ! i) data reset) = Inr (ps ! i))"
proof -
  have len: "length ps = length networks"
    using assms(2) by (metis length_map)
  have nth: "fst (NeuralNetwork_process (networks ! i) data reset) = Inr (ps ! i)"
    if "i < length networks" for i
  proof -
    have "map (\<lambda>nn. fst (NeuralNetwork_process nn data reset)) networks ! i = map Inr ps ! i"
      by (simp only: assms(2))
    then show ?thesis using that len by simp
  qed
  have "fst (ParallelProcessor_process completion
          \<lparr>processors = networks,
           num_threads = (case threads of Omitted \<Rightarrow> None | Passed n \<Rightarrow> n)\<rparr> data reset) = Inr ps"
    using assms
    by (rule parallel_all_succeed
        [where completion = completion and nets = networks and data = data and reset = reset
           and ps = ps])
  then obtain pp where "ParallelProcessor_process completion
          \<lparr>processors = networks,
           num_threads = (case threads of Omitted \<Rightarrow> None | Passed n \<Rightarrow> n)\<rparr> data reset = (Inr ps, pp)"
    by (metis prod.collapse)
  then have "fst (NeuralNetworkEnsemble_process completion
                (NeuralNetworkEnsemble_init np networks (Passed None) threads) data reset) =
           Inr (Lst ps)"
    by (simp add: NeuralNetworkEnsemble_process_def NeuralNetworkEnsemble_init_def)
  with len nth show ?thesis by blast
qed

theorem ensemble_without_combiner_witness:
  "mset (rev (zip [0..<length [\<lparr>layers = [ndim_layer]\<rparr>, \<lparr>layers = []\<rparr>]]
                  [\<lparr>layers = [ndim_layer]\<rparr>, \<lparr>layers = []\<rparr>])) =
     mset (zip [0..<length [\<lparr>layers = [ndim_layer]\<rparr>, \<lparr>layers = []\<rparr>]]
               [\<lparr>layers = [ndim_layer]\<rparr>, \<lparr>layers = []\<rparr>]) \<and>
   map (\<lambda>nn. fst (NeuralNetwork_process nn (Arr (NDArray [3] [5, 6, 7])) True))
       [\<lparr>layers = [ndim_layer]\<rparr>, \<lparr>layers = []\<rparr>] =
     map Inr [Arr (NDArray [] [2]), Arr (NDArray [3] [5, 6, 7])] \<and>
   fst (NeuralNetworkEnsemble_process rev
          (NeuralNetworkEnsemble_init exact_arith
             [\<lparr>layers = [ndim_layer]\<rparr>, \<lparr>layers = []\<rparr>] (Passed None) Omitted)
          (Arr (NDArray [3] [5, 6, 7])) True) =
     Inr (Lst [Arr (NDArray [] [2]), Arr (NDArray [3] [5, 6, 7])])"
proof -
  let ?nets = "[\<lparr>layers = [ndim_layer]\<rparr>, \<lparr>layers = []\<rparr>] :: (rat, unit) NeuralNetwork list"
  have h1: "mset (rev (zip [0..<length ?nets] ?nets)) = mset (zip [0..<length ?nets] ?nets)"
    by (rule mset_rev)
  have h2: "map (\<lambda>nn. fst (NeuralNetwork_process nn (Arr (NDArray [3] [5, 6, 7])) True)) ?nets =
     map Inr [Arr (NDArray [] [2]), Arr (NDArray [3] [5, 6, 7])]"
    by (simp add: NeuralNetwork_process_def feed_layers_def squeeze_predictions_def
        squeeze_def array_ndmin2_def ndim_def ndim_layer_def)
  from h1 h2
    ensemble_without_combiner
      [where completion = rev and networks = ?nets and np = exact_arith and threads = Omitted,
       OF h1 h2]
  show ?thesis by blast
qed

text \<open>
  C7, as stated, fails for \<^verbatim>\<open>float64\<close> arrays, on the spec's own example: a
  network that returns \<^verbatim>\<open>[0.5, 0.2]\<close> (0.2 is the binary64 number
  3602879701896397 / 2^54), three times in an ensemble, gives
  \<^verbatim>\<open>[0.5, 0.20000000000000004]\<close>, since \<^verbatim>\<open>0 + 0.2 + 0.2 + 0.2\<close> is rounded to
  \<^verbatim>\<open>0.6000000000000001\<close> before the division by 3.
\<close>

theorem identical_networks_rounding:
  "to_binary64 (1 / 5) = Finite (3602879701896397 / 18014398509481984) \<and>
   fst (NeuralNetwork_process
          \<lparr>layers = [constant_layer (Arr (NDArray [1, 2]
             [Finite (1 / 2), Finite (3602879701896397 / 18014398509481984)]))]\<rparr>
          (Arr (NDArray [1, 1] [Finite 1])) True) =
     Inr (Arr (NDArray [2] [Finite (1 / 2), Finite (3602879701896397 / 18014398509481984)])) \<and>
   fst (NeuralNetworkEnsemble_process (\<lambda>tasks. tasks)
          (NeuralNetworkEnsemble_init (float64 (\<lambda>a v. Inl TypeError))
             (replicate 3
                \<lparr>layers = [constant_layer (Arr (NDArray [1, 2]
                   [Finite (1 / 2), Finite (3602879701896397 / 18014398509481984)]))]\<rparr>)
             Omitted Omitted)
          (Arr (NDArray [1, 1] [Finite 1])) True) =
     Inr (Arr (NDArray [2] [Finite (1 / 2), Finite (7205759403792795 / 36028797018963968)]))"
proof -
  let ?nn = "\<lparr>layers = [constant_layer (Arr (NDArray [1, 2]
             [Finite (1 / 2), Finite (3602879701896397 / 18014398509481984)]))]\<rparr>"
  let ?d = "Arr (NDArray [1, 1] [Finite 1])"
  let ?p = "Arr (NDArray [2] [Finite (1 / 2), Finite (3602879701896397 / 18014398509481984)])"
  have single: "fst (NeuralNetwork_process ?nn ?d True) = Inr ?p"
    by (simp add: NeuralNetwork_process_def feed_layers_def squeeze_predictions_def
        squeeze_def constant_layer_def ndim_def)
  have perm: "mset ((\<lambda>tasks. tasks) (zip [0..<3] (replicate 3 ?nn))) =
      mset (zip [0..<3] (replicate 3 ?nn))"
    by simp
  have three: "(1::nat) \<le> 3" by simp
  have "fst (NeuralNetworkEnsemble_process (\<lambda>tasks. tasks)
          (NeuralNetworkEnsemble_init (float64 (\<lambda>a v. Inl TypeError)) (replicate 3 ?nn)
             Omitted Omitted) ?d True) =
        Inr (if (3::nat) = 1 then ?p else mean_of_copies (float64 (\<lambda>a v. Inl TypeError)) 3 ?p)"
    using perm three single
    by (rule ensemble_identical_average
        [where completion = "\<lambda>tasks. tasks" and k = 3 and nn = ?nn
           and np = "float64 (\<lambda>a v. Inl TypeError)" and threads = Omitted])
  also have "(if (3::nat) = 1 then ?p else mean_of_copies (float64 (\<lambda>a v. Inl TypeError)) 3 ?p) =
      Arr (NDArray [2] [Finite (1 / 2), Finite (7205759403792795 / 36028797018963968)])"
    by (simp add: mean_of_three_halves mean_of_three_fifths)
  finally show ?thesis
    using single binary64_one_fifth by simp
qed

text \<open>
  C7, amended: when the member network returns a prediction, an ensemble of
  \<open>k \<ge> 1\<close> copies of it with the default combiner returns, whatever the order
  in which the copies finish, the mean of \<open>k\<close> copies of that prediction:
  every element \<open>x\<close> of an array becomes \<open>(0 + x + ... + x) / k\<close> in the
  arithmetic of the array, slot by slot in a tuple. For \<open>k = 1\<close> this is the
  prediction itself, and so it is for every \<open>k\<close> for which that mean of
  \<open>k\<close> copies of a number is the number (as in exact arithmetic).
\<close>

theorem identical_networks_mean_of_copies:
  assumes "mset (completion (zip [0..<k] (replicate k nn))) = mset (zip [0..<k] (replicate k nn))"
    and "1 \<le> k"
    and "fst (NeuralNetwork_process nn data reset) = Inr p"
  shows "fst (NeuralNetworkEnsemble_process completion
                (NeuralNetworkEnsemble_init np (replicate k nn) Omitted threads) data reset) =
           Inr (if k = 1 then p else mean_of_copies np k p)
         \<and> ((\<forall>x. mean_of np (replicate k x) = x) \<longrightarrow>
              fst (NeuralNetworkEnsemble_process completion
                (NeuralNetworkEnsemble_init np (replicate k nn) Omitted threads) data reset) =
              Inr p)"
proof -
  have shape: "(\<exists>a. p = Arr a) \<or> (\<exists>as. p = Tup (map Arr as))"
    using assms(3) by (rule process_result_cases)
  have ens: "fst (NeuralNetworkEnsemble_process completion
                (NeuralNetworkEnsemble_init np (replicate k nn) Omitted threads) data reset) =
           Inr (if k = 1 then p else mean_of_copies np k p)"
    using assms
    by (rule ensemble_identical_average
        [where completion = completion and k = k and nn = nn])
  have "(\<forall>x. mean_of np (replicate k x) = x) \<longrightarrow>
      (if k = 1 then p else mean_of_copies np k p) = p"
    using mean_of_copies_exact [OF _ shape, of np k] by simp
  with ens show ?thesis by simp
qed

theorem identical_networks_mean_of_copies_witness:
  "mset (rev (zip [0..<3] (replicate 3 \<lparr>layers = [constant_layer (Arr (NDArray [1, 2] [1 / 2, 1 / 5 :: rat]))]\<rparr>))) =
     mset (zip [0..<3] (replicate 3 \<lparr>layers = [constant_layer (Arr (NDArray [1, 2] [1 / 2, 1 / 5 :: rat]))]\<rparr>)) \<and>
   (1::nat) \<le> 3 \<and>
   fst (NeuralNetwork_process \<lparr>layers = [constant_layer (Arr (NDArray [1, 2] [1 / 2, 1 / 5 :: rat]))]\<rparr>
          NoneV True) = Inr (Arr (NDArray [2] [1 / 2, 1 / 5])) \<and>
   (\<forall>x. mean_of exact_arith (replicate 3 x) = x) \<and>
   fst (NeuralNetworkEnsemble_process rev
          (NeuralNetworkEnsemble_init exact_arith
             (replicate 3 \<lparr>layers = [constant_layer (Arr (NDArray [1, 2] [1 / 2, 1 / 5 :: rat]))]\<rparr>)
             Omitted Omitted)
          NoneV True) = Inr (Arr (NDArray [2] [1 / 2, 1 / 5]))"
proof -
  let ?nn = "\<lparr>layers = [constant_layer (Arr (NDArray [1, 2] [1 / 2, 1 / 5 :: rat]))]\<rparr>"
  have h1: "mset (rev (zip [0..<3] (replicate 3 ?nn))) = mset (zip [0..<3] (replicate 3 ?nn))"
    by (rule mset_rev)
  have h2: "(1::nat) \<le> 3" by simp
  have h3: "fst (NeuralNetwork_process ?nn NoneV True) = Inr (Arr (NDArray [2] [1 / 2, 1 / 5]))"
    by (simp add: NeuralNetwork_process_def feed_layers_def squeeze_predictions_def
        squeeze_def constant_layer_def)
  have h4: "\<forall>x. mean_of exact_arith (replicate 3 x) = x"
    by (simp add: numeral_3_eq_3 exact_arith_def)
  from h1 h2 h3 h4
    identical_networks_mean_of_copies
      [where completion = rev and k = 3 and nn = ?nn and np = exact_arith and threads = Omitted,
       OF h1 h2 h3]
  show ?thesis by blast
qed

end
